theory Spec2Isabelle
  imports Complex_Main
begin

section \<open>Python values and errors\<close>

text \<open>
  The exceptions the modelled code can raise. \<open>ShapeError\<close> stands for the
  \<open>ValueError\<close>/\<open>RuntimeError\<close> PyTorch raises when a batch of outputs and a batch of
  labels disagree in size.
\<close>

datatype py_error =
  KeyError | TypeError | ZeroDivisionError | IndexError | ShapeError | OverflowError

text \<open>
  \<open>flwr.common.Scalar\<close> is \<open>Union[bool, bytes, float, int, str]\<close>, and \<open>Metrics\<close> is
  \<open>Dict[str, Scalar]\<close>. Python floats are idealised as exact rationals: every
  arithmetic operation below is the exact one, rounding, \<open>inf\<close> and \<open>nan\<close> are outside
  the model.
\<close>

datatype scalar = SBool bool | SBytes string | SFloat rat | SInt int | SStr string

type_synonym metrics = "string \<rightharpoonup> scalar"

text \<open>\<open>n * x\<close> for an \<open>int\<close> \<open>n\<close>: numbers multiply, \<open>str\<close> and \<open>bytes\<close> repeat.\<close>

fun int_mul :: "int \<Rightarrow> scalar \<Rightarrow> scalar" where
  "int_mul n (SFloat a) = SFloat (of_int n * a)"
| "int_mul n (SInt a) = SInt (n * a)"
| "int_mul n (SBool b) = SInt (n * (if b then 1 else 0))"
| "int_mul n (SStr s) = SStr (concat (replicate (nat n) s))"
| "int_mul n (SBytes s) = SBytes (concat (replicate (nat n) s))"

text \<open>
  \<open>acc + x\<close> inside \<open>sum\<close>: the accumulator starts at the \<open>int\<close> 0 and stays a number;
  adding a \<open>str\<close> or \<open>bytes\<close> to it raises \<open>TypeError\<close>.
\<close>

fun num_add :: "scalar \<Rightarrow> scalar \<Rightarrow> py_error + scalar" where
  "num_add (SInt a) (SInt b) = Inr (SInt (a + b))"
| "num_add (SInt a) (SFloat b) = Inr (SFloat (of_int a + b))"
| "num_add (SInt a) (SBool b) = Inr (SInt (a + (if b then 1 else 0)))"
| "num_add (SFloat a) (SInt b) = Inr (SFloat (a + of_int b))"
| "num_add (SFloat a) (SFloat b) = Inr (SFloat (a + b))"
| "num_add (SFloat a) (SBool b) = Inr (SFloat (a + (if b then 1 else 0)))"
| "num_add _ _ = Inl TypeError"

fun py_sum_from :: "scalar \<Rightarrow> scalar list \<Rightarrow> py_error + scalar" where
  "py_sum_from acc [] = Inr acc"
| "py_sum_from acc (x # xs) =
     (case num_add acc x of Inl e \<Rightarrow> Inl e | Inr acc' \<Rightarrow> py_sum_from acc' xs)"

definition py_sum :: "scalar list \<Rightarrow> py_error + scalar" where
  "py_sum xs = py_sum_from (SInt 0) xs"

text \<open>True division \<open>x / d\<close> of a number by an \<open>int\<close>: always a float, or \<open>ZeroDivisionError\<close>.\<close>

fun py_truediv :: "scalar \<Rightarrow> int \<Rightarrow> py_error + scalar" where
  "py_truediv (SInt a) d =
     (if d = 0 then Inl ZeroDivisionError else Inr (SFloat (of_int a / of_int d)))"
| "py_truediv (SFloat a) d =
     (if d = 0 then Inl ZeroDivisionError else Inr (SFloat (a / of_int d)))"
| "py_truediv (SBool b) d =
     (if d = 0 then Inl ZeroDivisionError else Inr (SFloat ((if b then 1 else 0) / of_int d)))"
| "py_truediv _ _ = Inl TypeError"

text \<open>A list comprehension whose element expression may raise: the first error wins.\<close>

fun collect :: "('a \<Rightarrow> py_error + 'b) \<Rightarrow> 'a list \<Rightarrow> py_error + 'b list" where
  "collect f [] = Inr []"
| "collect f (x # xs) =
     (case f x of Inl e \<Rightarrow> Inl e
      | Inr y \<Rightarrow> (case collect f xs of Inl e \<Rightarrow> Inl e | Inr ys \<Rightarrow> Inr (y # ys)))"

section \<open>The metric aggregation function\<close>

text \<open>
  \<^verbatim>\<open>
  def weighted_average(metrics: List[Tuple[int, Metrics]]) -> Metrics:
      accuracies = [num_examples * m["accuracy"] for num_examples, m in metrics]
      examples = [num_examples for num_examples, _ in metrics]
      return {"accuracy": sum(accuracies) / sum(examples)}
  \<close>
  \<open>m["accuracy"]\<close> raises \<open>KeyError\<close> on a missing key; both sums are evaluated before
  the division.
\<close>

definition scaled_accuracy :: "int \<times> metrics \<Rightarrow> py_error + scalar" where
  "scaled_accuracy = (\<lambda>(num_examples, m).
     case m ''accuracy'' of None \<Rightarrow> Inl KeyError | Some a \<Rightarrow> Inr (int_mul num_examples a))"

definition weighted_average :: "(int \<times> metrics) list \<Rightarrow> py_error + metrics" where
  "weighted_average ms =
     (case collect scaled_accuracy ms of
        Inl e \<Rightarrow> Inl e
      | Inr accuracies \<Rightarrow>
          (let examples = map fst ms in
           case py_sum accuracies of
             Inl e \<Rightarrow> Inl e
           | Inr num \<Rightarrow>
               (case py_truediv num (sum_list examples) of
                  Inl e \<Rightarrow> Inl e
                | Inr q \<Rightarrow> Inr [''accuracy'' \<mapsto> q])))"

text \<open>
  The words of the claims about \<open>weighted_average\<close>, kept apart from the code above:
  the number a scalar stands for (none for \<open>str\<close> and \<open>bytes\<close>), the accuracy a client
  reported, and the weight \<open>num_examples\<^sub>i / \<Sum>\<^sub>j num_examples\<^sub>j\<close> of each client.
\<close>

fun number_of :: "scalar \<Rightarrow> rat option" where
  "number_of (SFloat a) = Some a"
| "number_of (SInt a) = Some (of_int a)"
| "number_of (SBool b) = Some (if b then 1 else 0)"
| "number_of (SStr s) = None"
| "number_of (SBytes s) = None"

definition reported_accuracy :: "metrics \<Rightarrow> rat option" where
  "reported_accuracy m = (case m ''accuracy'' of None \<Rightarrow> None | Some a \<Rightarrow> number_of a)"

definition reported :: "(int \<times> metrics) list \<Rightarrow> rat option list" where
  "reported ms = map (\<lambda>(num_examples, m). reported_accuracy m) ms"



text \<open>Two clients' evaluation reports, the second with a further metric.\<close>

definition two_reports :: "(int \<times> metrics) list" where
  "two_reports = [(10, [''accuracy'' \<mapsto> SFloat (1 / 2)]),
                  (30, [''accuracy'' \<mapsto> SFloat (9 / 10), ''loss'' \<mapsto> SFloat 3])]"

section \<open>Module constants, seeding and the strategy list\<close>

definition num_rounds :: nat where
  "num_rounds = 20"

definition SEED :: int where
  "SEED = 42"

definition strategy_mem_depth :: nat where
  "strategy_mem_depth = 1"

text \<open>
  The generator of Python's \<open>random\<close> module is external: its state is a type \<open>'g\<close>,
  \<open>randbelow g n\<close> draws a number below \<open>n\<close> and returns the next state, and
  \<open>seed_gen s\<close> is the state \<open>random.seed(s)\<close> installs. The generators of torch and
  numpy are never read by the modelled code and are recorded by the seed they were
  last given (\<open>None\<close>: the default, taken from the operating system).
  \<^verbatim>\<open>
  def sow_seed(seed):
      torch.manual_seed(seed)
      random.seed(seed)
      np.random.seed(seed)
      torch.use_deterministic_algorithms(True)
  \<close>
\<close>

record 'g process =
  random_gen :: 'g
  torch_seed :: "int option"
  np_seed :: "int option"
  deterministic_algorithms :: bool

definition sow_seed :: "(int \<Rightarrow> 'g) \<Rightarrow> int \<Rightarrow> 'g process \<Rightarrow> 'g process" where
  "sow_seed seed_gen s p =
     p\<lparr>torch_seed := Some s, random_gen := seed_gen s, np_seed := Some s,
       deterministic_algorithms := True\<rparr>"

text \<open>
  \<open>random.shuffle\<close>, as the standard library has it:
  \<^verbatim>\<open>
  for i in reversed(range(1, len(x))):
      j = randbelow(i + 1)
      x[i], x[j] = x[j], x[i]
  \<close>
  By its contract \<open>randbelow(i + 1)\<close> is at most \<open>i\<close>, so both positions exist.
\<close>

fun shuffle_loop :: "('g \<Rightarrow> nat \<Rightarrow> nat \<times> 'g) \<Rightarrow> nat \<Rightarrow> 'g \<Rightarrow> 'a list \<Rightarrow> 'a list \<times> 'g" where
  "shuffle_loop randbelow 0 g x = (x, g)"
| "shuffle_loop randbelow (Suc i) g x =
     (case randbelow g (Suc i + 1) of
        (j, g') \<Rightarrow> shuffle_loop randbelow i g' (x[Suc i := x ! j, j := x ! Suc i]))"

definition shuffle :: "('g \<Rightarrow> nat \<Rightarrow> nat \<times> 'g) \<Rightarrow> 'g \<Rightarrow> 'a list \<Rightarrow> 'a list \<times> 'g" where
  "shuffle randbelow g x = shuffle_loop randbelow (length x - 1) g x"

text \<open>
  A game strategy object: its name and the seed \<open>set_seed\<close> last gave it. The list
  \<open>axl.filtered_strategies(...)\<close> returns comes from the axelrod library and is a
  parameter, \<open>filtered\<close>, already instantiated.
\<close>

record strategy =
  name :: string
  seed :: "int option"

definition axl_Random :: strategy where
  "axl_Random = \<lparr>name = ''Random: 0.5'', seed = None\<rparr>"

definition set_seed :: "int \<Rightarrow> strategy \<Rightarrow> strategy" where
  "set_seed s p = p\<lparr>seed := Some s\<rparr>"

text \<open>
  The statements the module runs when it is loaded:
  \<^verbatim>\<open>
  client_strategies = [s() for s in axl.filtered_strategies(...)]
  client_strategies.append(axl.Random())
  random.shuffle(client_strategies)
  NUM_PARTITIONS = len(client_strategies)
  dirichlet_partitioner = DirichletPartitioner(num_partitions=NUM_PARTITIONS, ...)
  \<close>
\<close>

record 'g module_state =
  client_strategies :: "strategy list"
  NUM_PARTITIONS :: nat
  partitioner_num_partitions :: nat
  proc :: "'g process"

definition module_level ::
  "('g \<Rightarrow> nat \<Rightarrow> nat \<times> 'g) \<Rightarrow> strategy list \<Rightarrow> 'g process \<Rightarrow> 'g module_state" where
  "module_level randbelow filtered p =
     (case shuffle randbelow (random_gen p) (filtered @ [axl_Random]) of
        (cs, g') \<Rightarrow>
          \<lparr>client_strategies = cs, NUM_PARTITIONS = length cs,
           partitioner_num_partitions = length cs, proc = p\<lparr>random_gen := g'\<rparr>\<rparr>)"

text \<open>
  Running the file as a script: the module-level statements first, then
  \<^verbatim>\<open>
  if __name__ == '__main__':
      sow_seed(SEED)
      main()
  \<close>
  The result is the state in which \<open>main\<close> calls \<open>run_simulation\<close>, with the number
  of supernodes it passes.
\<close>

definition script ::
  "('g \<Rightarrow> nat \<Rightarrow> nat \<times> 'g) \<Rightarrow> (int \<Rightarrow> 'g) \<Rightarrow> strategy list \<Rightarrow> 'g process
     \<Rightarrow> 'g module_state \<times> nat" where
  "script randbelow seed_gen filtered p0 =
     (let st = module_level randbelow filtered p0;
          st' = st\<lparr>proc := sow_seed seed_gen SEED (proc st)\<rparr>
      in (st', NUM_PARTITIONS st'))"

text \<open>
  A small generator to run the script on: the state is a counter, a draw below \<open>n\<close>
  is the counter modulo \<open>n\<close>, seeding sets the counter to the seed.
\<close>

definition counter_randbelow :: "nat \<Rightarrow> nat \<Rightarrow> nat \<times> nat" where
  "counter_randbelow g n = (g mod n, Suc g)"

definition counter_seed :: "int \<Rightarrow> nat" where
  "counter_seed s = nat s"

definition fresh_process :: "'g \<Rightarrow> 'g process" where
  "fresh_process g =
     \<lparr>random_gen = g, torch_seed = None, np_seed = None, deterministic_algorithms = False\<rparr>"

definition two_strategies :: "strategy list" where
  "two_strategies = [\<lparr>name = ''Tit For Tat'', seed = None\<rparr>,
                     \<lparr>name = ''Win-Stay Lose-Shift'', seed = None\<rparr>]"

section \<open>The client factory\<close>

text \<open>
  \<^verbatim>\<open>
  def client_fn(context: Context):
      partition_id = int(context.node_config["partition-id"])
      partition = fds.load_partition(partition_id, "train")
      partition_train_val = partition.train_test_split(test_size=0.1, seed=SEED)
      trainloader, testloader = get_mnist_dataloaders(partition_train_val, batch_size=32)
      client_ipd_strat = client_strategies[partition_id]
      client_ipd_strat.set_seed(SEED)
      return FlowerClient(trainloader=trainloader, valloader=testloader,
                          ipd_strategy=client_ipd_strat, client_id=partition_id).to_client()
  \<close>
  The three data-loading lines are external and are the parameter \<open>loaders\<close>, which
  may fail. \<open>client_strategies\<close> is a global list of shared objects: \<open>set_seed\<close>
  mutates the object in the list, so the list is passed in and returned, and the
  client holds the position of its strategy object in it.
\<close>

record "context" =
  node_config :: "string \<rightharpoonup> int"

record 'l FlowerClient =
  trainloader :: 'l
  valloader :: 'l
  ipd_strategy :: nat
  client_id :: int

definition py_index :: "'a list \<Rightarrow> int \<Rightarrow> py_error + nat" where
  "py_index xs i =
     (if 0 \<le> i \<and> i < int (length xs) then Inr (nat i)
      else if i < 0 \<and> - int (length xs) \<le> i then Inr (nat (int (length xs) + i))
      else Inl IndexError)"

definition client_fn ::
  "(int \<Rightarrow> py_error + 'l \<times> 'l) \<Rightarrow> strategy list \<Rightarrow> context
     \<Rightarrow> (py_error + 'l FlowerClient) \<times> strategy list" where
  "client_fn loaders cs ctx =
     (case node_config ctx ''partition-id'' of
        None \<Rightarrow> (Inl KeyError, cs)
      | Some partition_id \<Rightarrow>
          (case loaders partition_id of
             Inl e \<Rightarrow> (Inl e, cs)
           | Inr (trainloader', testloader') \<Rightarrow>
               (case py_index cs partition_id of
                  Inl e \<Rightarrow> (Inl e, cs)
                | Inr k \<Rightarrow>
                    (Inr \<lparr>trainloader = trainloader', valloader = testloader',
                          ipd_strategy = k, client_id = partition_id\<rparr>,
                     cs[k := set_seed SEED (cs ! k)]))))"

text \<open>Any number of calls, one after the other, on the shared list.\<close>

fun client_fn_calls ::
  "(int \<Rightarrow> py_error + 'l \<times> 'l) \<Rightarrow> strategy list \<Rightarrow> context list \<Rightarrow> strategy list" where
  "client_fn_calls loaders cs [] = cs"
| "client_fn_calls loaders cs (ctx # ctxs) =
     client_fn_calls loaders (snd (client_fn loaders cs ctx)) ctxs"

text \<open>The seed the strategy of the client made for a context has after the call.\<close>

definition client_seed ::
  "(int \<Rightarrow> py_error + 'l \<times> 'l) \<Rightarrow> strategy list \<Rightarrow> context \<Rightarrow> int option" where
  "client_seed loaders cs ctx =
     (case client_fn loaders cs ctx of
        (Inl e, cs') \<Rightarrow> None
      | (Inr c, cs') \<Rightarrow> seed (cs' ! ipd_strategy c))"

definition context_of :: "int \<Rightarrow> context" where
  "context_of partition_id = \<lparr>node_config = [''partition-id'' \<mapsto> partition_id]\<rparr>"

definition unit_loaders :: "int \<Rightarrow> py_error + unit \<times> unit" where
  "unit_loaders partition_id = Inr ((), ())"

section \<open>The model, evaluation and the server factory\<close>

text \<open>
  A network is its state dict (the named parameter tensors, of a type \<open>'w\<close>) and
  its mode flag. The class \<open>Net\<close> and PyTorch are external: the constructor, the
  forward pass and the loss criterion are parameters. A forward pass returns the
  rows of logits it computed and the network as the call leaves it, so that nothing
  is assumed about what it leaves unchanged.
  \<^verbatim>\<open>
  def get_params(model):
      return [val.cpu().numpy() for _, val in model.state_dict().items()]
  \<close>
\<close>

record 'w net =
  state_dict :: "(string \<times> 'w) list"
  training :: bool

definition get_params :: "'w net \<Rightarrow> 'w list" where
  "get_params model = map snd (state_dict model)"














definition unit_net :: "unit net" where
  "unit_net = \<lparr>state_dict = [(''fc.weight'', ())], training = True\<rparr>"

text \<open>
  \<^verbatim>\<open>
  def server_fn(context: Context):
      model = Net(num_classes=10)
      ndarrays = get_params(model)
      global_model_init = ndarrays_to_parameters(ndarrays)
      strategy = FedAvg(
          fraction_fit=0.5,
          fraction_evaluate=0.1,
          evaluate_metrics_aggregation_fn=weighted_average,
          initial_parameters=global_model_init,
      )
      ipd_tournament_server = Ipd_TournamentServer(client_manager=SimpleClientManager(),
                                                   strategy=strategy)
      config = ServerConfig(num_rounds=num_rounds)
      return ServerAppComponents(server=ipd_tournament_server, config=config)
  \<close>
  The records hold the arguments the code passes; \<open>SimpleClientManager()\<close> starts
  with no client registered, \<open>ServerConfig\<close> has no round timeout unless given one.
\<close>

record 'p FedAvg =
  fraction_fit :: rat
  fraction_evaluate :: rat
  evaluate_metrics_aggregation_fn :: "(int \<times> metrics) list \<Rightarrow> py_error + metrics"
  initial_parameters :: 'p

record 'p Ipd_TournamentServer =
  client_manager :: "string list"
  strategy :: "'p FedAvg"

record ServerConfig =
  config_num_rounds :: nat
  round_timeout :: "rat option"

record 'p ServerAppComponents =
  server :: "'p Ipd_TournamentServer"
  config :: ServerConfig

definition SimpleClientManager :: "string list" where
  "SimpleClientManager = []"

definition server_fn ::
  "(nat \<Rightarrow> 'w net) \<Rightarrow> ('w list \<Rightarrow> 'p) \<Rightarrow> context \<Rightarrow> 'p ServerAppComponents" where
  "server_fn Net ndarrays_to_parameters ctx =
     (let model = Net 10;
          ndarrays = get_params model;
          global_model_init = ndarrays_to_parameters ndarrays;
          strategy' = \<lparr>fraction_fit = 5 / 10, fraction_evaluate = 1 / 10,
                       evaluate_metrics_aggregation_fn = weighted_average,
                       initial_parameters = global_model_init\<rparr>;
          ipd_tournament_server = \<lparr>client_manager = SimpleClientManager, strategy = strategy'\<rparr>;
          config' = \<lparr>config_num_rounds = num_rounds, round_timeout = None\<rparr>
      in \<lparr>server = ipd_tournament_server, config = config'\<rparr>)"

section \<open>The round orchestrator\<close>

text \<open>
  Modelled from the spec: the round orchestrator (the class \<open>Ipd_TournamentServer\<close>,
  whose code is not among the sources). The specification gives its states,
  \<open>INIT \<rightarrow> TOURNAMENT \<rightarrow> SELECT \<rightarrow> FIT_DISPATCH \<rightarrow> FIT_COLLECT \<rightarrow> AGGREGATE \<rightarrow> EVAL_DISPATCH
  \<rightarrow> EVAL_COLLECT \<rightarrow> METRIC_AGGREGATE \<rightarrow> (NEXT_ROUND | TERMINATE)\<close>, and says that
  \<open>TERMINATE\<close> is reached after \<open>num_rounds\<close> iterations or upon an unrecoverable
  failure. An iteration is counted when \<open>METRIC_AGGREGATE\<close> is left; \<open>failure k s\<close>
  says that an unrecoverable failure strikes in state \<open>s\<close> after \<open>k\<close> iterations.
\<close>

datatype orch_state =
  INIT | TOURNAMENT | SELECT | FIT_DISPATCH | FIT_COLLECT | AGGREGATE | EVAL_DISPATCH
  | EVAL_COLLECT | METRIC_AGGREGATE | NEXT_ROUND | TERMINATE

text \<open>
  Modelled from the spec: one transition of the orchestrator's state machine, for
  \<open>n\<close> configured rounds and \<open>k\<close> iterations done.
\<close>

fun orch_next :: "nat \<Rightarrow> orch_state \<Rightarrow> nat \<Rightarrow> orch_state \<times> nat" where
  "orch_next n INIT k = (TOURNAMENT, k)"
| "orch_next n TOURNAMENT k = (SELECT, k)"
| "orch_next n SELECT k = (FIT_DISPATCH, k)"
| "orch_next n FIT_DISPATCH k = (FIT_COLLECT, k)"
| "orch_next n FIT_COLLECT k = (AGGREGATE, k)"
| "orch_next n AGGREGATE k = (EVAL_DISPATCH, k)"
| "orch_next n EVAL_DISPATCH k = (EVAL_COLLECT, k)"
| "orch_next n EVAL_COLLECT k = (METRIC_AGGREGATE, k)"
| "orch_next n METRIC_AGGREGATE k = (if n \<le> Suc k then TERMINATE else NEXT_ROUND, Suc k)"
| "orch_next n NEXT_ROUND k = (TOURNAMENT, k)"
| "orch_next n TERMINATE k = (TERMINATE, k)"

text \<open>
  Modelled from the spec: a transition of the orchestrator, an unrecoverable failure
  leading to \<open>TERMINATE\<close> from any state.
\<close>

definition orch_step ::
  "nat \<Rightarrow> (nat \<Rightarrow> orch_state \<Rightarrow> bool) \<Rightarrow> orch_state \<Rightarrow> nat \<Rightarrow> orch_state \<times> nat" where
  "orch_step n failure s k = (if failure k s then (TERMINATE, k) else orch_next n s k)"

text \<open>
  Modelled from the spec: the position of a state within a round. It serves the
  termination proof of the run below.
\<close>

fun orch_rank :: "orch_state \<Rightarrow> nat" where
  "orch_rank INIT = 0"
| "orch_rank NEXT_ROUND = 0"
| "orch_rank TOURNAMENT = 1"
| "orch_rank SELECT = 2"
| "orch_rank FIT_DISPATCH = 3"
| "orch_rank FIT_COLLECT = 4"
| "orch_rank AGGREGATE = 5"
| "orch_rank EVAL_DISPATCH = 6"
| "orch_rank EVAL_COLLECT = 7"
| "orch_rank METRIC_AGGREGATE = 8"
| "orch_rank TERMINATE = 10"

text \<open>
  Modelled from the spec: the orchestrator's run from a state, as the list of the
  states it visits, each with its iteration count.
\<close>

function orch_run ::
  "nat \<Rightarrow> (nat \<Rightarrow> orch_state \<Rightarrow> bool) \<Rightarrow> orch_state \<Rightarrow> nat \<Rightarrow> (orch_state \<times> nat) list" where
  "orch_run n failure s k =
     (if s = TERMINATE then [(s, k)]
      else (s, k) # (case orch_step n failure s k of (s', k') \<Rightarrow> orch_run n failure s' k'))"
  by pat_completeness auto
termination
  apply (relation "measure (\<lambda>(n, failure, s, k). (n - k) * 10 + (10 - orch_rank s))")
   apply simp
  subgoal for n failure s k
    apply (cases "failure k s")
     apply (cases s; simp add: orch_step_def)
    apply (cases s; auto simp add: orch_step_def split: if_splits)
    done
  done

declare orch_run.simps [simp del]

text \<open>
  Modelled from the spec: the number of rounds a run has started, and the run in
  which no unrecoverable failure strikes.
\<close>

definition rounds_run :: "(orch_state \<times> nat) list \<Rightarrow> nat" where
  "rounds_run trace = length (filter (\<lambda>(s, k). s = TOURNAMENT) trace)"

definition no_failure :: "nat \<Rightarrow> orch_state \<Rightarrow> bool" where
  "no_failure k s = False"

section \<open>Properties of the metric aggregation\<close>

lemma num_add_number:
  assumes "number_of acc = Some v" and "\<forall>b. acc \<noteq> SBool b" and "number_of x = Some w"
  shows "\<exists>r. num_add acc x = Inr r \<and> number_of r = Some (v + w) \<and> (\<forall>b. r \<noteq> SBool b)"
  using assms by (cases acc; cases x) auto

lemma py_sum_from_number:
  assumes "number_of acc = Some v" and "\<forall>b. acc \<noteq> SBool b" and "map number_of ps = map Some ws"
  shows "\<exists>r. py_sum_from acc ps = Inr r \<and> number_of r = Some (v + sum_list ws)"
  using assms
proof (induction ps arbitrary: acc v ws)
  case Nil
  then show ?case by simp
next
  case (Cons p ps)
  from Cons.prems(3) obtain w ws' where ws: "ws = w # ws'" and w: "number_of p = Some w"
    and rest: "map number_of ps = map Some ws'"
    by (cases ws) auto
  from num_add_number [OF Cons.prems(1,2) w] obtain r
    where r: "num_add acc p = Inr r" "number_of r = Some (v + w)" "\<forall>b. r \<noteq> SBool b"
    by blast
  from Cons.IH [OF r(2,3) rest] obtain r'
    where "py_sum_from r ps = Inr r'" "number_of r' = Some (v + w + sum_list ws')"
    by blast
  with r(1) ws show ?case by (simp add: add.assoc)
qed

lemma py_truediv_number:
  assumes "number_of s = Some v"
  shows "py_truediv s d = (if d = 0 then Inl ZeroDivisionError else Inr (SFloat (v / of_int d)))"
  using assms by (cases s) auto

lemma py_truediv_zero: "\<exists>e. py_truediv s 0 = Inl e"
  by (cases s) auto

lemma int_mul_number:
  assumes "number_of a = Some v"
  shows "number_of (int_mul n a) = Some (of_int n * v)"
  using assms by (cases a) auto

lemma collect_scaled_accuracy:
  assumes "reported ms = map Some as"
  shows "\<exists>ps. collect scaled_accuracy ms = Inr ps
           \<and> map number_of ps = map Some (map (\<lambda>(n, a). of_int n * a) (zip (map fst ms) as))"
  using assms
proof (induction ms arbitrary: as)
  case Nil
  then show ?case by simp
next
  case (Cons x ms)
  obtain n m where x: "x = (n, m)" by (cases x)
  from Cons.prems x obtain a as' where as: "as = a # as'"
    and a: "reported_accuracy m = Some a" and rest: "reported ms = map Some as'"
    by (cases as) (auto simp: reported_def)
  from a obtain s where s: "m ''accuracy'' = Some s" "number_of s = Some a"
    by (auto simp: reported_accuracy_def split: option.splits)
  from Cons.IH [OF rest] obtain ps where ps: "collect scaled_accuracy ms = Inr ps"
    "map number_of ps = map Some (map (\<lambda>(n, a). of_int n * a) (zip (map fst ms) as'))"
    by blast
  show ?case
    using x as s ps by (simp add: scaled_accuracy_def int_mul_number)
qed

lemma weighted_average_reported:
  assumes "reported ms = map Some as"
  shows "weighted_average ms =
           (if sum_list (map fst ms) = 0 then Inl ZeroDivisionError
            else Inr [''accuracy'' \<mapsto>
                   SFloat (sum_list (map (\<lambda>(n, a). of_int n * a) (zip (map fst ms) as))
                           / of_int (sum_list (map fst ms)))])"
proof -
  from collect_scaled_accuracy [OF assms] obtain ps
    where ps: "collect scaled_accuracy ms = Inr ps"
      "map number_of ps = map Some (map (\<lambda>(n, a). of_int n * a) (zip (map fst ms) as))"
    by blast
  have "number_of (SInt 0) = Some 0" "\<forall>b. SInt 0 \<noteq> SBool b" by simp_all
  from py_sum_from_number [OF this ps(2)] obtain r
    where r: "py_sum ps = Inr r"
      "number_of r = Some (sum_list (map (\<lambda>(n, a). of_int n * a) (zip (map fst ms) as)))"
    by (auto simp: py_sum_def)
  show ?thesis
    using ps(1) r(1) py_truediv_number [OF r(2), of "sum_list (map fst ms)"]
    by (simp add: weighted_average_def)
qed

lemma weighted_average_zero_fails:
  assumes "sum_list (map fst ms) = 0"
  shows "weighted_average ms \<noteq> Inr r"
proof
  assume "weighted_average ms = Inr r"
  with assms obtain num q where "py_truediv num 0 = Inr q"
    by (auto simp: weighted_average_def Let_def split: sum.splits)
  with py_truediv_zero [of num] show False by auto
qed

lemma collect_cong:
  assumes "map f xs = map f ys"
  shows "collect f xs = collect f ys"
  using assms
proof (induction xs arbitrary: ys)
  case Nil
  then show ?case by simp
next
  case (Cons x xs)
  then obtain y ys' where "ys = y # ys'" "f x = f y" "map f xs = map f ys'"
    by (cases ys) auto
  with Cons.IH [of ys'] show ?case by (simp split: sum.splits)
qed

lemma weighted_average_cong:
  assumes "map fst ms' = map fst ms"
    and "map (\<lambda>(n, m). m ''accuracy'') ms' = map (\<lambda>(n, m). m ''accuracy'') ms"
  shows "weighted_average ms' = weighted_average ms"
proof -
  have "map scaled_accuracy ms' = map scaled_accuracy ms"
    using assms
  proof (induction ms' arbitrary: ms)
    case Nil
    then show ?case by simp
  next
    case (Cons x xs)
    then obtain y ys where "ms = y # ys" by (cases ms) auto
    with Cons show ?case
      by (cases x; cases y) (auto simp: scaled_accuracy_def)
  qed
  then have "collect scaled_accuracy ms' = collect scaled_accuracy ms"
    by (rule collect_cong)
  with assms(1) show ?thesis by (simp add: weighted_average_def Let_def split: sum.splits)
qed






text \<open>
  Claim C1. For every list of \<open>(num_examples, metrics)\<close> pairs in which each client
  reports a numeric accuracy (\<open>as\<close> are the reported values) and whose example counts
  sum to a nonzero value (such a list is not empty), \<open>weighted_average\<close> returns the
  dict with the single key \<open>accuracy\<close>, bound to
  \<open>(\<Sum>\<^sub>i num_examples\<^sub>i * as\<^sub>i) / (\<Sum>\<^sub>i num_examples\<^sub>i)\<close>; and it reads no other field of the
  metrics: any input with the same example counts and the same \<open>accuracy\<close> entries
  gives the same result.
\<close>

theorem weighted_average_weighted_mean:
  assumes "reported ms = map Some as" and "sum_list (map fst ms) \<noteq> 0"
  shows "weighted_average ms =
           Inr [''accuracy'' \<mapsto>
                SFloat (sum_list (map (\<lambda>(n, a). of_int n * a) (zip (map fst ms) as))
                        / of_int (sum_list (map fst ms)))]
         \<and> (\<forall>ms'. map fst ms' = map fst ms
                \<and> map (\<lambda>(n, m). m ''accuracy'') ms' = map (\<lambda>(n, m). m ''accuracy'') ms
              \<longrightarrow> weighted_average ms' = weighted_average ms)"
proof (intro conjI allI impI)
  show "weighted_average ms =
          Inr [''accuracy'' \<mapsto>
               SFloat (sum_list (map (\<lambda>(n, a). of_int n * a) (zip (map fst ms) as))
                       / of_int (sum_list (map fst ms)))]"
    using weighted_average_reported [OF assms(1)] assms(2) by simp
next
  fix ms'
  assume "map fst ms' = map fst ms
    \<and> map (\<lambda>(n, m). m ''accuracy'') ms' = map (\<lambda>(n, m). m ''accuracy'') ms"
  then show "weighted_average ms' = weighted_average ms"
    by (intro weighted_average_cong) simp_all
qed

theorem weighted_average_weighted_mean_witness:
  "reported two_reports = map Some [1 / 2, 9 / 10]
   \<and> sum_list (map fst two_reports) \<noteq> 0
   \<and> weighted_average two_reports = Inr [''accuracy'' \<mapsto> SFloat (4 / 5)]
   \<and> weighted_average [(10, [''accuracy'' \<mapsto> SFloat (1 / 2), ''loss'' \<mapsto> SStr ''n/a'']),
                       (30, [''accuracy'' \<mapsto> SFloat (9 / 10)])]
       = weighted_average two_reports"
proof -
  let ?ms' = "[(10 :: int, [''accuracy'' \<mapsto> SFloat (1 / 2), ''loss'' \<mapsto> SStr ''n/a'']),
               (30, [''accuracy'' \<mapsto> SFloat (9 / 10)])]"
  have r: "reported two_reports = map Some [1 / 2, 9 / 10]"
    by (simp add: two_reports_def reported_def reported_accuracy_def)
  have n: "sum_list (map fst two_reports) \<noteq> 0"
    by (simp add: two_reports_def)
  have same: "map fst ?ms' = map fst two_reports
      \<and> map (\<lambda>(n, m). m ''accuracy'') ?ms' = map (\<lambda>(n, m). m ''accuracy'') two_reports"
    by (simp add: two_reports_def)
  from weighted_average_weighted_mean [OF r n]
  have v: "weighted_average two_reports =
      Inr [''accuracy'' \<mapsto>
           SFloat (sum_list (map (\<lambda>(n, a). of_int n * a) (zip (map fst two_reports) [1 / 2, 9 / 10]))
                   / of_int (sum_list (map fst two_reports)))]"
    and f: "\<forall>ms'. map fst ms' = map fst two_reports
                \<and> map (\<lambda>(n, m). m ''accuracy'') ms' = map (\<lambda>(n, m). m ''accuracy'') two_reports
              \<longrightarrow> weighted_average ms' = weighted_average two_reports"
    by blast+
  have "sum_list (map (\<lambda>(n, a). of_int n * a) (zip (map fst two_reports) [1 / 2, 9 / 10]))
          / of_int (sum_list (map fst two_reports)) = (4 / 5 :: rat)"
    by (simp add: two_reports_def)
  with v have v': "weighted_average two_reports = Inr [''accuracy'' \<mapsto> SFloat (4 / 5)]"
    by (simp only:)
  from f same have "weighted_average ?ms' = weighted_average two_reports" by blast
  with r n v' show ?thesis by (simp only: simp_thms)
qed





text \<open>
  Claim C9. On the empty list \<open>weighted_average\<close> fails with \<open>ZeroDivisionError\<close>; and
  on every list whose \<open>num_examples\<close> sum to zero it returns no value: it fails, with
  \<open>ZeroDivisionError\<close> whenever every client reports a numeric accuracy (otherwise
  the error raised before the division is reached).
\<close>

theorem weighted_average_zero_examples:
  "weighted_average [] = Inl ZeroDivisionError
   \<and> (sum_list (map fst ms) = 0 \<longrightarrow>
        (\<forall>r. weighted_average ms \<noteq> Inr r)
        \<and> (\<forall>as. reported ms = map Some as \<longrightarrow> weighted_average ms = Inl ZeroDivisionError))"
proof (intro conjI impI allI)
  show "weighted_average [] = Inl ZeroDivisionError"
    by (simp add: weighted_average_def py_sum_def)
next
  fix r
  assume "sum_list (map fst ms) = 0"
  then show "weighted_average ms \<noteq> Inr r" by (rule weighted_average_zero_fails)
next
  fix as
  assume "sum_list (map fst ms) = 0" and "reported ms = map Some as"
  then show "weighted_average ms = Inl ZeroDivisionError"
    using weighted_average_reported [of ms as] by simp
qed

theorem weighted_average_zero_examples_witness:
  "sum_list (map fst [(0 :: int, [''accuracy'' \<mapsto> SFloat (9 / 10)])]) = 0
   \<and> reported [(0, [''accuracy'' \<mapsto> SFloat (9 / 10)])] = map Some [9 / 10]
   \<and> weighted_average [(0, [''accuracy'' \<mapsto> SFloat (9 / 10)])] = Inl ZeroDivisionError
   \<and> weighted_average [] = Inl ZeroDivisionError"
proof -
  let ?ms = "[(0 :: int, [''accuracy'' \<mapsto> SFloat (9 / 10)])]"
  have z: "sum_list (map fst ?ms) = 0" by simp
  have r: "reported ?ms = map Some [9 / 10]"
    by (simp add: reported_def reported_accuracy_def)
  from weighted_average_zero_examples [of ?ms] z r show ?thesis by blast
qed

section \<open>Properties of the startup and of the factories\<close>

lemma length_shuffle_loop: "length (fst (shuffle_loop randbelow i g x)) = length x"
proof (induction i arbitrary: g x)
  case 0
  then show ?case by simp
next
  case (Suc i)
  obtain j g' where "randbelow g (Suc i + 1) = (j, g')" by (cases "randbelow g (Suc i + 1)")
  with Suc [of g' "x[Suc i := x ! j, j := x ! Suc i]"] show ?case by simp
qed

lemma length_shuffle: "length (fst (shuffle randbelow g x)) = length x"
  by (simp add: shuffle_def length_shuffle_loop)

lemma module_level_partitions:
  "NUM_PARTITIONS (module_level randbelow filtered p) = length (client_strategies (module_level randbelow filtered p))"
  "partitioner_num_partitions (module_level randbelow filtered p) = length (client_strategies (module_level randbelow filtered p))"
  "length (client_strategies (module_level randbelow filtered p)) = length filtered + 1"
  using length_shuffle [of randbelow "random_gen p" "filtered @ [axl_Random]"]
  by (auto simp: module_level_def split: prod.splits)

lemma py_index_in_range:
  assumes "i < length xs"
  shows "py_index xs (int i) = Inr i"
  using assms by (simp add: py_index_def)

lemma py_index_bound:
  assumes "py_index xs i = Inr k"
  shows "k < length xs"
  using assms by (auto simp: py_index_def split: if_splits)

lemma client_fn_names:
  "map name (snd (client_fn loaders cs ctx)) = map name cs"
  by (auto simp: client_fn_def set_seed_def map_update list_update_same_conv
      dest: py_index_bound split: option.splits sum.splits prod.splits)

lemma client_fn_calls_names:
  "map name (client_fn_calls loaders cs ctxs) = map name cs"
  by (induction ctxs arbitrary: cs) (simp_all add: client_fn_names)

lemma client_fn_in_range:
  assumes "i < length cs" and "node_config ctx ''partition-id'' = Some (int i)"
    and "loaders (int i) = Inr (tr, va)"
  shows "client_fn loaders cs ctx =
           (Inr \<lparr>trainloader = tr, valloader = va, ipd_strategy = i, client_id = int i\<rparr>,
            cs[i := set_seed SEED (cs ! i)])"
  using assms by (simp add: client_fn_def py_index_in_range)

text \<open>
  Claim C6. In the state in which the script starts the simulation, \<open>NUM_PARTITIONS\<close>
  is the length of the strategy list built at startup (the filtered strategies and
  \<open>axl.Random()\<close>), and it is the number of partitions of the partitioner and of
  supernodes. After any number of \<open>client_fn\<close> calls the list still has that length
  and the same strategy at every position, and \<open>client_fn\<close> for a partition id
  \<open>i < NUM_PARTITIONS\<close> (whose data loads) makes the client with id \<open>i\<close> holding the
  strategy at position \<open>i\<close>; the call changes nothing in the list but that strategy's seed.
\<close>

theorem one_strategy_per_partition:
  assumes "script randbelow seed_gen filtered p0 = (st, num_supernodes)"
    and "cs = client_fn_calls loaders (client_strategies st) ctxs"
    and "i < NUM_PARTITIONS st"
    and "node_config ctx ''partition-id'' = Some (int i)"
    and "loaders (int i) = Inr (tr, va)"
  shows "NUM_PARTITIONS st = length (client_strategies st)
         \<and> NUM_PARTITIONS st = length filtered + 1
         \<and> partitioner_num_partitions st = NUM_PARTITIONS st
         \<and> num_supernodes = NUM_PARTITIONS st
         \<and> length cs = NUM_PARTITIONS st
         \<and> map name cs = map name (client_strategies st)
         \<and> client_fn loaders cs ctx =
             (Inr \<lparr>trainloader = tr, valloader = va, ipd_strategy = i, client_id = int i\<rparr>,
              cs[i := set_seed SEED (cs ! i)])"
proof -
  let ?m = "module_level randbelow filtered p0"
  from assms(1) have st: "st = ?m\<lparr>proc := sow_seed seed_gen SEED (proc ?m)\<rparr>"
    and sn: "num_supernodes = NUM_PARTITIONS st"
    by (auto simp: script_def Let_def)
  from st have n: "NUM_PARTITIONS st = length (client_strategies st)"
    and f: "NUM_PARTITIONS st = length filtered + 1"
    and d: "partitioner_num_partitions st = NUM_PARTITIONS st"
    by (simp_all add: module_level_partitions)
  have names: "map name cs = map name (client_strategies st)"
    by (simp add: assms(2) client_fn_calls_names)
  then have "length (map name cs) = length (map name (client_strategies st))" by simp
  with n have len: "length cs = NUM_PARTITIONS st" by simp
  with assms(3) have "i < length cs" by simp
  from client_fn_in_range [where loaders = loaders, OF this assms(4,5)] n f d sn len names show ?thesis
    by blast
qed

theorem one_strategy_per_partition_witness:
  "NUM_PARTITIONS (fst (script counter_randbelow counter_seed two_strategies (fresh_process 0))) = 3
   \<and> snd (script counter_randbelow counter_seed two_strategies (fresh_process 0)) = 3
   \<and> map name (client_fn_calls unit_loaders
         (client_strategies (fst (script counter_randbelow counter_seed two_strategies (fresh_process 0))))
         [context_of 1, context_of 0])
       = [''Random: 0.5'', ''Win-Stay Lose-Shift'', ''Tit For Tat'']
   \<and> fst (client_fn unit_loaders
         (client_fn_calls unit_loaders
           (client_strategies (fst (script counter_randbelow counter_seed two_strategies (fresh_process 0))))
           [context_of 1, context_of 0])
         (context_of 2))
       = Inr \<lparr>trainloader = (), valloader = (), ipd_strategy = 2, client_id = 2\<rparr>"
proof -
  let ?run = "script counter_randbelow counter_seed two_strategies (fresh_process 0)"
  let ?cs = "client_fn_calls unit_loaders (client_strategies (fst ?run)) [context_of 1, context_of 0]"
  have cs0: "client_strategies (fst ?run)
      = [axl_Random, \<lparr>name = ''Win-Stay Lose-Shift'', seed = None\<rparr>,
         \<lparr>name = ''Tit For Tat'', seed = None\<rparr>]"
    by (simp add: script_def module_level_def shuffle_def counter_randbelow_def
        two_strategies_def fresh_process_def numeral_2_eq_2)
  have n: "NUM_PARTITIONS (fst ?run) = 3"
    by (simp add: script_def module_level_def shuffle_def counter_randbelow_def
        two_strategies_def fresh_process_def numeral_2_eq_2)
  have a1: "?run = (fst ?run, snd ?run)" by simp
  have a3: "2 < NUM_PARTITIONS (fst ?run)" by (simp add: n)
  have a4: "node_config (context_of 2) ''partition-id'' = Some (int 2)"
    by (simp add: context_of_def)
  have a5: "unit_loaders (int 2) = Inr ((), ())" by (simp add: unit_loaders_def)
  from one_strategy_per_partition [where loaders = unit_loaders, OF a1 refl a3 a4 a5]
  have "snd ?run = NUM_PARTITIONS (fst ?run)"
    and "map name ?cs = map name (client_strategies (fst ?run))"
    and "client_fn unit_loaders ?cs (context_of 2)
         = (Inr \<lparr>trainloader = (), valloader = (), ipd_strategy = 2, client_id = int 2\<rparr>,
            ?cs[2 := set_seed SEED (?cs ! 2)])"
    by blast+
  then show ?thesis
    by (simp add: n cs0 axl_Random_def)
qed

text \<open>
  Claim C5, as amended. Whenever \<open>client_fn\<close> makes a client, the seed it gives the
  client's strategy is the module constant \<open>SEED = 42\<close>: the same for every
  partition id and for every state of the strategy list, hence for every round.
\<close>

theorem seed_is_SEED:
  assumes "fst (client_fn loaders cs ctx) = Inr c"
  shows "client_seed loaders cs ctx = Some SEED \<and> SEED = 42"
proof -
  from assms obtain pid k where "py_index cs pid = Inr k" "ipd_strategy c = k"
    "snd (client_fn loaders cs ctx) = cs[k := set_seed SEED (cs ! k)]"
    by (auto simp: client_fn_def split: option.splits sum.splits prod.splits)
  with assms py_index_bound [of cs pid k] show ?thesis
    by (cases "client_fn loaders cs ctx") (simp add: client_seed_def set_seed_def SEED_def)
qed

theorem seed_is_SEED_witness:
  "fst (client_fn unit_loaders two_strategies (context_of 1))
     = Inr \<lparr>trainloader = (), valloader = (), ipd_strategy = 1, client_id = 1\<rparr>
   \<and> client_seed unit_loaders two_strategies (context_of 1) = Some 42"
proof -
  have c: "fst (client_fn unit_loaders two_strategies (context_of 1))
      = Inr \<lparr>trainloader = (), valloader = (), ipd_strategy = 1, client_id = 1\<rparr>"
    by (simp add: client_fn_def unit_loaders_def two_strategies_def context_of_def py_index_def)
  from seed_is_SEED [OF c] c show ?thesis by simp
qed

text \<open>
  Claim C5 as stated fails: the clients of partitions 0 and 1 get the same seed, and
  so does the client of partition 0 when it is made a second time.
\<close>

theorem seed_per_agent_counterexample:
  "client_seed unit_loaders two_strategies (context_of 0) = Some 42
   \<and> client_seed unit_loaders two_strategies (context_of 1) = Some 42
   \<and> client_seed unit_loaders (snd (client_fn unit_loaders two_strategies (context_of 0)))
        (context_of 0) = Some 42
   \<and> \<not> (client_seed unit_loaders two_strategies (context_of 0)
          \<noteq> client_seed unit_loaders two_strategies (context_of 1))"
  by (simp add: client_seed_def client_fn_def unit_loaders_def two_strategies_def context_of_def
      py_index_def set_seed_def SEED_def)

text \<open>
  Claim C4. The script shuffles the strategy list when the module is loaded, before
  \<open>sow_seed(SEED)\<close> runs: two runs that start from different generator states and
  sow the same seed end with the same generator state and different assignments of
  strategies to partition ids.
\<close>

theorem shuffle_precedes_seed:
  "client_strategies (fst (script counter_randbelow counter_seed two_strategies (fresh_process 0)))
     = [axl_Random, \<lparr>name = ''Win-Stay Lose-Shift'', seed = None\<rparr>, \<lparr>name = ''Tit For Tat'', seed = None\<rparr>]
   \<and> client_strategies (fst (script counter_randbelow counter_seed two_strategies (fresh_process 1)))
     = [axl_Random, \<lparr>name = ''Tit For Tat'', seed = None\<rparr>, \<lparr>name = ''Win-Stay Lose-Shift'', seed = None\<rparr>]
   \<and> proc (fst (script counter_randbelow counter_seed two_strategies (fresh_process 0)))
     = proc (fst (script counter_randbelow counter_seed two_strategies (fresh_process 1)))"
  by (simp add: script_def module_level_def shuffle_def counter_randbelow_def counter_seed_def
      two_strategies_def fresh_process_def sow_seed_def numeral_2_eq_2)

text \<open>
  Claim C8. The strategy \<open>server_fn\<close> builds has \<open>fraction_fit\<close> 0.5 and
  \<open>fraction_evaluate\<close> 0.1, \<open>weighted_average\<close> as its evaluate-metrics aggregation
  function, and as initial parameters the converted parameters of a freshly
  constructed \<open>Net(num_classes=10)\<close>.
\<close>

theorem server_fn_strategy:
  "fraction_fit (strategy (server (server_fn Net ndarrays_to_parameters ctx))) = 1 / 2
   \<and> fraction_evaluate (strategy (server (server_fn Net ndarrays_to_parameters ctx))) = 1 / 10
   \<and> evaluate_metrics_aggregation_fn (strategy (server (server_fn Net ndarrays_to_parameters ctx)))
       = weighted_average
   \<and> initial_parameters (strategy (server (server_fn Net ndarrays_to_parameters ctx)))
       = ndarrays_to_parameters (map snd (state_dict (Net 10)))"
  by (simp add: server_fn_def get_params_def)

section \<open>Properties of the round orchestrator\<close>

lemma orch_run_live:
  assumes "s \<noteq> TERMINATE"
  shows "orch_run n f s k = (s, k) # (case orch_step n f s k of (s', k') \<Rightarrow> orch_run n f s' k')"
  using assms by (subst orch_run.simps) simp

lemma orch_run_TERMINATE: "orch_run n f TERMINATE k = [(TERMINATE, k)]"
  by (subst orch_run.simps) simp

lemma orch_run_NEXT_ROUND:
  assumes "\<not> f k NEXT_ROUND"
  shows "orch_run n f NEXT_ROUND k = (NEXT_ROUND, k) # orch_run n f TOURNAMENT k"
  using assms by (simp add: orch_run_live orch_step_def)

lemma orch_round:
  assumes "\<forall>k s. \<not> f k s"
  shows "orch_run n f TOURNAMENT k =
           [(TOURNAMENT, k), (SELECT, k), (FIT_DISPATCH, k), (FIT_COLLECT, k), (AGGREGATE, k),
            (EVAL_DISPATCH, k), (EVAL_COLLECT, k), (METRIC_AGGREGATE, k)]
           @ (if n \<le> Suc k then [(TERMINATE, Suc k)]
              else (NEXT_ROUND, Suc k) # orch_run n f TOURNAMENT (Suc k))"
  using assms
  by (simp add: orch_run_live [where k = k] orch_step_def orch_run_TERMINATE orch_run_NEXT_ROUND)

lemma orch_from_TOURNAMENT:
  assumes "\<forall>k s. \<not> f k s" and "k < n"
  shows "last (orch_run n f TOURNAMENT k) = (TERMINATE, n)
         \<and> rounds_run (orch_run n f TOURNAMENT k) = n - k"
  using assms(2)
proof (induction "n - k" arbitrary: k)
  case 0
  then show ?case by simp
next
  case (Suc d)
  show ?case
  proof (cases "n \<le> Suc k")
    case True
    with Suc.prems have "n = Suc k" by simp
    then show ?thesis
      by (simp add: orch_round [OF assms(1)] rounds_run_def)
  next
    case False
    with Suc.hyps have "d = n - Suc k" "Suc k < n" by simp_all
    from Suc.hyps(1) [OF this]
    have "last (orch_run n f TOURNAMENT (Suc k)) = (TERMINATE, n)"
      and "rounds_run (orch_run n f TOURNAMENT (Suc k)) = n - Suc k"
      by simp_all
    moreover have "orch_run n f TOURNAMENT (Suc k) \<noteq> []"
      by (subst orch_run.simps) simp
    ultimately show ?thesis
      using False Suc.prems
      by (simp add: orch_round [OF assms(1), of n k] rounds_run_def)
  qed
qed

lemma orch_from_INIT:
  assumes "\<forall>k s. \<not> f k s" and "0 < n"
  shows "last (orch_run n f INIT 0) = (TERMINATE, n) \<and> rounds_run (orch_run n f INIT 0) = n"
proof -
  have "orch_run n f INIT 0 = (INIT, 0) # orch_run n f TOURNAMENT 0"
    using assms(1) by (simp add: orch_run_live orch_step_def)
  moreover have "orch_run n f TOURNAMENT 0 \<noteq> []"
    by (subst orch_run.simps) simp
  ultimately show ?thesis
    using orch_from_TOURNAMENT [OF assms] by (simp add: rounds_run_def)
qed

text \<open>
  Claim C7. The \<open>ServerConfig\<close> that \<open>server_fn\<close> hands to \<open>ServerAppComponents\<close>
  carries the module constant \<open>num_rounds = 20\<close>, and, absent an unrecoverable
  failure, the orchestrator of the specification started in \<open>INIT\<close> with that number
  of rounds stops in \<open>TERMINATE\<close> after 20 iterations, having run 20 rounds.
\<close>

theorem terminates_after_num_rounds:
  assumes "\<forall>k s. \<not> failure k s"
  shows "config_num_rounds (config (server_fn Net ndarrays_to_parameters ctx)) = num_rounds
         \<and> num_rounds = 20
         \<and> last (orch_run (config_num_rounds (config (server_fn Net ndarrays_to_parameters ctx)))
                   failure INIT 0) = (TERMINATE, 20)
         \<and> rounds_run (orch_run (config_num_rounds (config (server_fn Net ndarrays_to_parameters ctx)))
                   failure INIT 0) = 20"
proof -
  have c: "config_num_rounds (config (server_fn Net ndarrays_to_parameters ctx)) = num_rounds"
    by (simp add: server_fn_def)
  have n: "num_rounds = 20" by (simp add: num_rounds_def)
  from orch_from_INIT [OF assms, of 20] c n show ?thesis by simp
qed

theorem terminates_after_num_rounds_witness:
  "config_num_rounds (config (server_fn (\<lambda>num_classes. unit_net) length (context_of 0))) = 20
   \<and> last (orch_run 20 no_failure INIT 0) = (TERMINATE, 20)
   \<and> rounds_run (orch_run 20 no_failure INIT 0) = 20"
proof -
  have nf: "\<forall>k s. \<not> no_failure k s" by (simp add: no_failure_def)
  let ?n = "config_num_rounds (config (server_fn (\<lambda>num_classes. unit_net) length (context_of 0)))"
  from terminates_after_num_rounds [OF nf, of "\<lambda>num_classes. unit_net" length "context_of 0"]
  have c: "?n = num_rounds" and n: "num_rounds = 20"
    and l: "last (orch_run ?n no_failure INIT 0) = (TERMINATE, 20)"
    and r: "rounds_run (orch_run ?n no_failure INIT 0) = 20"
    by blast+
  from c n have "?n = 20" by (rule trans)
  with l r show ?thesis by (simp only: simp_thms)
qed

section \<open>Properties of the evaluation\<close>










end
